theory Spec2Isabelle
  imports Complex_Main
begin

section \<open>InkSpire: the quote widget of script.js\<close>

text \<open>
  The repository holds two versions of the same script: \<^verbatim>\<open>src/script.js\<close> and
  \<^verbatim>\<open>src/unnamed/part_001\<close>. They agree on \<^verbatim>\<open>loading\<close>, \<^verbatim>\<open>completeLoading\<close>,
  \<^verbatim>\<open>logError\<close> and \<^verbatim>\<open>setQuote\<close>, and differ in \<^verbatim>\<open>newQuote\<close>, \<^verbatim>\<open>shareQuote\<close> and in how
  \<^verbatim>\<open>getQuotes\<close> logs. A function that differs is embedded twice, with the suffix
  \<open>_script\<close> for \<^verbatim>\<open>src/script.js\<close> and \<open>_part001\<close> for \<^verbatim>\<open>src/unnamed/part_001\<close>.

  Modelling decisions, all stated where they are used:
  \<^item> a JavaScript string is a \<^typ>\<open>string\<close>, one \<^typ>\<open>char\<close> per UTF-16 code unit, so only
    code units below 256 occur and \<^const>\<open>length\<close> is the \<^verbatim>\<open>.length\<close> of the source;
  \<^item> a property of a quote record is \<^verbatim>\<open>undefined\<close> (also: missing), \<^verbatim>\<open>null\<close> or a
    string, and an entry of an array is \<^verbatim>\<open>undefined\<close>, \<^verbatim>\<open>null\<close>, a string or such a
    record; numbers, booleans and nested arrays are not modelled;
  \<^item> the six DOM elements looked up by \<^verbatim>\<open>getElement\<close> exist;
  \<^item> \<^verbatim>\<open>Math.random()\<close> is a parameter \<open>r\<close>, a double in the interval from 0 to 1, given
    by its numerator and the exponent of its denominator, and the product
    \<^verbatim>\<open>Math.random() * data.length\<close> is the product of doubles, rounded to the nearest
    double, ties to even;
  \<^item> \<^verbatim>\<open>localQuotes\<close> is defined in \<^verbatim>\<open>quotes.js\<close>, which is not among the sources: it is a
    parameter \<open>L\<close>, an array;
  \<^item> the remote call is a parameter too: the outcome of \<^verbatim>\<open>fetch\<close> and
    \<^verbatim>\<open>response.json()\<close>, once settled. A request that never settles is not modelled.
\<close>

subsection \<open>JavaScript values, errors and completions\<close>

text \<open>The value of a property of a quote record.\<close>

datatype jsval = Undefined | Null | Str string

text \<open>
  An entry of the \<^verbatim>\<open>data\<close> array, and what \<^verbatim>\<open>data[i]\<close> evaluates to: \<^verbatim>\<open>undefined\<close>,
  \<^verbatim>\<open>null\<close>, a string (a primitive, as the spread of a string yields), or an object with
  the properties \<^verbatim>\<open>author\<close> and \<^verbatim>\<open>text\<close>.
\<close>

datatype elem = Undef | Nul | StrPrim string | Obj (author: jsval) (text_prop: jsval)

text \<open>An error object: its \<^verbatim>\<open>name\<close> and its \<^verbatim>\<open>message\<close>.\<close>

datatype js_error = JsError (err_name: string) (err_message: string)

text \<open>\<^verbatim>\<open>Error.prototype.toString\<close>, which \<^verbatim>\<open>"..." + error\<close> calls.\<close>

definition error_toString :: "js_error \<Rightarrow> string" where
  "error_toString e =
     (if err_name e = [] then err_message e
      else if err_message e = [] then err_name e
      else err_name e @ '': '' @ err_message e)"

text \<open>How a call ends: it returns, or it throws.\<close>

datatype completion = Normal | Throw js_error

text \<open>
  The two \<^verbatim>\<open>TypeError\<close>s of \<^verbatim>\<open>setQuote\<close>: destructuring \<^verbatim>\<open>undefined\<close> or \<^verbatim>\<open>null\<close>, and
  reading \<^verbatim>\<open>.length\<close> of \<^verbatim>\<open>undefined\<close> or \<^verbatim>\<open>null\<close>. The message texts are the
  engine's; nothing below depends on them.
\<close>

definition destructure_error :: js_error where
  "destructure_error = JsError ''TypeError'' ''Cannot destructure property of undefined or null''"

definition length_error :: js_error where
  "length_error = JsError ''TypeError'' ''Cannot read properties of undefined or null (reading length)''"

definition not_iterable_error :: js_error where
  "not_iterable_error = JsError ''TypeError'' ''apiQuotes is not iterable''"

text \<open>\<^verbatim>\<open>ToString\<close>, as a template literal \<^verbatim>\<open>${v}\<close> applies it.\<close>

fun template_string :: "jsval \<Rightarrow> string" where
  "template_string Undefined = ''undefined''"
| "template_string Null = ''null''"
| "template_string (Str s) = s"

text \<open>
  The setter of \<^verbatim>\<open>textContent\<close>, an attribute of the nullable type \<^verbatim>\<open>DOMString?\<close>:
  \<^verbatim>\<open>null\<close> and \<^verbatim>\<open>undefined\<close> both become the empty string.
\<close>

fun textContent_of :: "jsval \<Rightarrow> string" where
  "textContent_of Undefined = []"
| "textContent_of Null = []"
| "textContent_of (Str s) = s"

text \<open>\<^verbatim>\<open>v.length\<close>: a \<^verbatim>\<open>TypeError\<close> on \<^verbatim>\<open>undefined\<close> and \<^verbatim>\<open>null\<close>.\<close>

fun js_length :: "jsval \<Rightarrow> nat option" where
  "js_length Undefined = None"
| "js_length Null = None"
| "js_length (Str s) = Some (length s)"

text \<open>
  A default in a destructuring pattern, \<^verbatim>\<open>{ author: authorText = "Unknown" }\<close>: the default
  replaces \<^verbatim>\<open>undefined\<close> and nothing else.
\<close>

fun default_value :: "jsval \<Rightarrow> jsval \<Rightarrow> jsval" where
  "default_value Undefined d = d"
| "default_value v d = v"

text \<open>
  \<^verbatim>\<open>classList.toggle(token, force)\<close> of a \<^verbatim>\<open>DOMTokenList\<close>, an ordered set of tokens:
  with \<^verbatim>\<open>force\<close> true the token is added unless present, with \<^verbatim>\<open>force\<close> false it is
  removed.
\<close>

definition classList_toggle :: "string \<Rightarrow> bool \<Rightarrow> string list \<Rightarrow> string list" where
  "classList_toggle token force cl =
     (if token \<in> set cl then (if force then cl else removeAll token cl)
      else (if force then cl @ [token] else cl))"

text \<open>\<^verbatim>\<open>data[i]\<close> for an integral \<open>i\<close>: \<^verbatim>\<open>undefined\<close> out of range.\<close>

definition js_index :: "elem list \<Rightarrow> int \<Rightarrow> elem" where
  "js_index xs i = (if 0 \<le> i \<and> i < int (length xs) then xs ! nat i else Undef)"

subsection \<open>The page: the global \<^verbatim>\<open>data\<close>, the DOM elements, the console\<close>

text \<open>
  A line of the console: \<^verbatim>\<open>console.error(message)\<close>, or
  \<^verbatim>\<open>console.error(message, error)\<close> with the error object as second argument.
\<close>

datatype log_entry = Msg string | MsgErr string js_error

text \<open>The argument of \<^verbatim>\<open>navigator.share\<close>.\<close>

record share_data =
  share_title :: string
  share_text :: string
  share_url :: string

record page =
  data :: "elem list"
  quote_textContent :: string
  quote_classList :: "string list"
  author_textContent :: string
  loader_hidden :: bool
  mainContainer_hidden :: bool
  console :: "log_entry list"
  opened :: "(string \<times> string) list"
  shared :: "share_data list"

definition logError :: "string \<Rightarrow> page \<Rightarrow> page" where
  "logError message st = st\<lparr>console := console st @ [Msg message]\<rparr>"

definition loading :: "page \<Rightarrow> page" where
  "loading st = st\<lparr>loader_hidden := False, mainContainer_hidden := True\<rparr>"

definition completeLoading :: "page \<Rightarrow> page" where
  "completeLoading st = st\<lparr>mainContainer_hidden := False, loader_hidden := True\<rparr>"

subsection \<open>\<^verbatim>\<open>setQuote\<close>\<close>

text \<open>
  The parameter is destructured first (a \<^verbatim>\<open>TypeError\<close> on \<^verbatim>\<open>undefined\<close> and \<^verbatim>\<open>null\<close>, with
  nothing changed); then the two \<^verbatim>\<open>textContent\<close>s are assigned; then \<^verbatim>\<open>quoteText.length\<close>
  is read, which throws when the text is \<^verbatim>\<open>undefined\<close> or \<^verbatim>\<open>null\<close>, after both
  assignments. A string has neither an \<^verbatim>\<open>author\<close> nor a \<^verbatim>\<open>text\<close> property: both are
  \<^verbatim>\<open>undefined\<close>, so the author is the default, the quote display is emptied and the
  read of \<^verbatim>\<open>.length\<close> throws.
\<close>

fun setQuote :: "elem \<Rightarrow> page \<Rightarrow> completion \<times> page" where
  "setQuote Undef st = (Throw destructure_error, st)"
| "setQuote Nul st = (Throw destructure_error, st)"
| "setQuote (StrPrim p) st =
     (Throw length_error,
      st\<lparr>quote_textContent := textContent_of Undefined,
         author_textContent := '' - '' @ template_string (Str ''Unknown'')\<rparr>)"
| "setQuote (Obj a t) st =
     (let authorText = default_value a (Str ''Unknown'');
          quoteText = t;
          st1 = st\<lparr>quote_textContent := textContent_of quoteText\<rparr>;
          st2 = st1\<lparr>author_textContent := '' - '' @ template_string authorText\<rparr>
      in case js_length quoteText of
           None \<Rightarrow> (Throw length_error, st2)
         | Some n \<Rightarrow>
             (Normal, st2\<lparr>quote_classList :=
                classList_toggle ''long-quote'' (120 < n) (quote_classList st2)\<rparr>))"

subsection \<open>\<^verbatim>\<open>newQuote\<close>\<close>

text \<open>
  What \<^verbatim>\<open>Math.random()\<close> returns: a double \<open>r\<close> with \<open>0 \<le> r < 1\<close>. Every such double is
  \<open>m / 2 ^ k\<close> for a numerator \<open>m < 2 ^ 53\<close> (53 bits of significand) and an exponent
  \<open>k \<le> 1074\<close> (the smallest power of two of a double is \<open>2 ^ - 1074\<close>), with \<open>m < 2 ^ k\<close>
  since \<open>r < 1\<close>; and every such fraction is a double.
\<close>

datatype random_value = Rand (mantissa: nat) (exponent: nat)

definition is_random :: "random_value \<Rightarrow> bool" where
  "is_random r \<longleftrightarrow>
     mantissa r < 2 ^ 53 \<and> exponent r \<le> 1074 \<and> mantissa r < 2 ^ exponent r"

definition value_of :: "random_value \<Rightarrow> real" where
  "value_of r = real (mantissa r) / 2 ^ exponent r"

text \<open>The number of binary digits of a natural number.\<close>

fun bit_length :: "nat \<Rightarrow> nat" where
  "bit_length n = (if n = 0 then 0 else Suc (bit_length (n div 2)))"

text \<open>
  Rounding a natural number to 53 significant bits, to nearest and ties to even, as
  IEEE 754 rounds the significand of a double: a number of at most 53 bits is kept;
  of a longer one the \<open>s\<close> bits beyond the 53rd are dropped, and the kept part \<open>q\<close> is
  increased by one when the dropped part \<open>rm\<close> is more than half a unit \<open>h\<close> of \<open>q\<close>, or
  exactly half with \<open>q\<close> odd.
\<close>

definition round53 :: "nat \<Rightarrow> nat" where
  "round53 a =
     (let b = bit_length a
      in if b \<le> 53 then a
         else (let s = b - 53; q = a div 2 ^ s; rm = a mod 2 ^ s; h = 2 ^ (s - 1)
               in (if h < rm \<or> (rm = h \<and> odd q) then q + 1 else q) * 2 ^ s))"

text \<open>
  \<^verbatim>\<open>Math.random() * data.length\<close>: the length \<open>n\<close> of an array is below \<open>2 ^ 32\<close>, so it
  is a double as it is, and the exact product is \<open>m * n / 2 ^ k\<close>. Its unit \<open>2 ^ - k\<close> is
  within the range of a double, so rounding the product to a double is rounding its
  numerator to 53 bits. The product is below \<open>2 ^ 32\<close>: there is no overflow.
\<close>

definition double_product :: "random_value \<Rightarrow> nat \<Rightarrow> real" where
  "double_product r n = real (round53 (mantissa r * n)) / 2 ^ exponent r"

text \<open>\<^verbatim>\<open>Math.floor(Math.random() * data.length)\<close>, with \<open>r\<close> the random number.\<close>

definition random_index :: "random_value \<Rightarrow> nat \<Rightarrow> int" where
  "random_index r n = \<lfloor>double_product r n\<rfloor>"

text \<open>
  \<^verbatim>\<open>src/script.js\<close>, lines 111 to 116: the test of \<^verbatim>\<open>data.length\<close> only logs, and the call
  of \<^verbatim>\<open>setQuote\<close> follows in every case. When \<^verbatim>\<open>setQuote\<close> throws, \<^verbatim>\<open>completeLoading\<close>
  is not reached.
\<close>

definition newQuote_script :: "random_value \<Rightarrow> page \<Rightarrow> completion \<times> page" where
  "newQuote_script r st =
     (let st1 = loading st;
          st2 = (if length (data st1) = 0 then logError ''No quotes to display'' st1 else st1)
      in case setQuote (js_index (data st2) (random_index r (length (data st2)))) st2 of
           (Throw e, st3) \<Rightarrow> (Throw e, st3)
         | (Normal, st3) \<Rightarrow> (Normal, completeLoading st3))"

text \<open>
  \<^verbatim>\<open>src/unnamed/part_001\<close>, lines 123 to 132: on an empty \<^verbatim>\<open>data\<close> the function logs,
  calls \<^verbatim>\<open>completeLoading\<close> and returns.
\<close>

definition newQuote_part001 :: "random_value \<Rightarrow> page \<Rightarrow> completion \<times> page" where
  "newQuote_part001 r st =
     (let st1 = loading st
      in if length (data st1) = 0
         then (Normal, completeLoading (logError ''No quotes to display'' st1))
         else case setQuote (js_index (data st1) (random_index r (length (data st1)))) st1 of
                (Throw e, st2) \<Rightarrow> (Throw e, st2)
              | (Normal, st2) \<Rightarrow> (Normal, completeLoading st2))"

subsection \<open>\<^verbatim>\<open>getQuotes\<close>\<close>

text \<open>
  What \<^verbatim>\<open>response.json()\<close> resolves to: an array, a string, or a value that is not
  iterable (an object, a number, a boolean, \<^verbatim>\<open>null\<close>).
\<close>

datatype json_body = JsonArray "elem list" | JsonString string | JsonNotIterable

text \<open>
  The spread \<^verbatim>\<open>...apiQuotes\<close>: it copies an array, yields the characters of a string,
  each a string of length one, and throws a \<^verbatim>\<open>TypeError\<close> (here \<^const>\<open>None\<close>) on a value that
  is not iterable.
\<close>

definition spread :: "json_body \<Rightarrow> elem list option" where
  "spread body =
     (case body of
        JsonArray R \<Rightarrow> Some R
      | JsonString s \<Rightarrow> Some (map (\<lambda>c. StrPrim [c]) s)
      | JsonNotIterable \<Rightarrow> None)"

text \<open>
  The remote call: \<^verbatim>\<open>fetch\<close> rejects (network error), or \<^verbatim>\<open>response.json()\<close> rejects
  (the body is not JSON), or the body parses.
\<close>

datatype remote = FetchRejects js_error | JsonRejects js_error | JsonValue json_body

text \<open>
  The \<^verbatim>\<open>try\<close> block, which is the same in both files but for the \<^verbatim>\<open>newQuote\<close> it calls
  (the parameter \<open>nq\<close>): the state and completion at the end of the block, or at the
  point where it throws.
\<close>

definition try_block ::
  "(page \<Rightarrow> completion \<times> page) \<Rightarrow> elem list \<Rightarrow> remote \<Rightarrow> page \<Rightarrow> completion \<times> page" where
  "try_block nq L rem st =
     (case rem of
        FetchRejects e \<Rightarrow> (Throw e, st)
      | JsonRejects e \<Rightarrow> (Throw e, st)
      | JsonValue body \<Rightarrow>
          (case spread body of
             None \<Rightarrow> (Throw not_iterable_error, st)
           | Some R \<Rightarrow> nq (st\<lparr>data := L @ R\<rparr>)))"

text \<open>
  \<^verbatim>\<open>src/script.js\<close>, lines 127 to 144. \<open>r1\<close> is the random number of the \<^verbatim>\<open>newQuote\<close> in
  the \<^verbatim>\<open>try\<close> block and \<open>r2\<close> that of the one in the \<^verbatim>\<open>catch\<close> block. The \<^verbatim>\<open>catch\<close>
  block also catches what \<^verbatim>\<open>newQuote\<close> throws in the \<^verbatim>\<open>try\<close> block. The completion is
  that of the promise: \<^const>\<open>Throw\<close> is a rejection.
\<close>

definition getQuotes_script ::
  "elem list \<Rightarrow> remote \<Rightarrow> random_value \<Rightarrow> random_value \<Rightarrow> page \<Rightarrow> completion \<times> page"
  where
  "getQuotes_script L rem r1 r2 st =
     (case try_block (newQuote_script r1) L rem (loading st) of
        (Normal, st2) \<Rightarrow> (Normal, st2)
      | (Throw e, st2) \<Rightarrow>
          (let st3 = st2\<lparr>console := console st2 @ [MsgErr ''Error fetching quotes'' e]\<rparr>;
               st4 = st3\<lparr>data := L\<rparr>
           in newQuote_script r2 st4))"

text \<open>\<^verbatim>\<open>src/unnamed/part_001\<close>, lines 139 to 155.\<close>

definition getQuotes_part001 ::
  "elem list \<Rightarrow> remote \<Rightarrow> random_value \<Rightarrow> random_value \<Rightarrow> page \<Rightarrow> completion \<times> page"
  where
  "getQuotes_part001 L rem r1 r2 st =
     (case try_block (newQuote_part001 r1) L rem (loading st) of
        (Normal, st2) \<Rightarrow> (Normal, st2)
      | (Throw e, st2) \<Rightarrow>
          (let st3 = logError (''Error fetching quotes: '' @ error_toString e) st2;
               st4 = st3\<lparr>data := L\<rparr>
           in newQuote_part001 r2 st4))"

text \<open>
  The last statement of each file: \<^verbatim>\<open>getQuotes().catch(...)\<close> logs a rejection of
  \<^verbatim>\<open>getQuotes\<close>.
\<close>

definition startup_script ::
  "elem list \<Rightarrow> remote \<Rightarrow> random_value \<Rightarrow> random_value \<Rightarrow> page \<Rightarrow> page" where
  "startup_script L rem r1 r2 st =
     (case getQuotes_script L rem r1 r2 st of
        (Normal, st') \<Rightarrow> st'
      | (Throw e, st') \<Rightarrow>
          st'\<lparr>console := console st' @ [MsgErr ''Unhandled error in getQuotes:'' e]\<rparr>)"

definition startup_part001 ::
  "elem list \<Rightarrow> remote \<Rightarrow> random_value \<Rightarrow> random_value \<Rightarrow> page \<Rightarrow> page" where
  "startup_part001 L rem r1 r2 st =
     (case getQuotes_part001 L rem r1 r2 st of
        (Normal, st') \<Rightarrow> st'
      | (Throw e, st') \<Rightarrow>
          logError (''Unhandled error in getQuotes: '' @ error_toString e) st')"

subsection \<open>\<^verbatim>\<open>shareQuote\<close>\<close>

text \<open>
  \<^verbatim>\<open>encodeURIComponent\<close> on code units below 256: letters, digits and
  \<^verbatim>\<open>- _ . ! ~ * ' ( )\<close> stay, every other unit becomes the \<^verbatim>\<open>%XX\<close> escapes of its
  UTF-8 bytes (one byte below 128, two from 128 on).
\<close>

definition uri_unreserved :: "char \<Rightarrow> bool" where
  "uri_unreserved c \<longleftrightarrow>
     c \<in> set (''ABCDEFGHIJKLMNOPQRSTUVWXYZabcdefghijklmnopqrstuvwxyz0123456789-_.!~*()''
              @ [CHR 0x27])"

definition hex_digit :: "nat \<Rightarrow> char" where
  "hex_digit n = ''0123456789ABCDEF'' ! (n mod 16)"

definition percent_byte :: "nat \<Rightarrow> string" where
  "percent_byte b = [CHR ''%'', hex_digit (b div 16), hex_digit b]"

definition encode_unit :: "char \<Rightarrow> string" where
  "encode_unit c =
     (let n = (of_char c :: nat)
      in if uri_unreserved c then [c]
         else if n < 128 then percent_byte n
         else percent_byte (192 + n div 64) @ percent_byte (128 + n mod 64))"

definition encodeURIComponent :: "string \<Rightarrow> string" where
  "encodeURIComponent s = concat (map encode_unit s)"

text \<open>
  \<^verbatim>\<open>src/script.js\<close>, lines 80 to 85: the test only logs; the URL is built and
  \<^verbatim>\<open>window.open\<close> is called in every case. The tweet is the template
  \<^verbatim>\<open>"${quote}" - ${author}\<close>, with the double quotes.
\<close>

definition shareQuote_script :: "page \<Rightarrow> page" where
  "shareQuote_script st =
     (let st1 = (if quote_textContent st = [] \<or> author_textContent st = []
                 then logError ''No quote or author to share'' st else st);
          twitterUrl = ''https://twitter.com/intent/tweet?text='' @
            encodeURIComponent ([CHR 0x22] @ quote_textContent st1 @ [CHR 0x22] @ '' - '' @
                                author_textContent st1)
      in st1\<lparr>opened := opened st1 @ [(twitterUrl, ''_blank'')]\<rparr>)"

text \<open>
  \<^verbatim>\<open>navigator.share\<close>: missing, or present with a promise that resolves or rejects.
\<close>

datatype share_api = NoShare | ShareResolves | ShareRejects js_error

text \<open>
  \<^verbatim>\<open>src/unnamed/part_001\<close>, lines 76 to 101: an early return when either text is empty;
  otherwise the Web Share API when there is one, and the Twitter URL when not. \<open>href\<close>
  is \<^verbatim>\<open>window.location.href\<close>.
\<close>

definition shareQuote_part001 :: "share_api \<Rightarrow> string \<Rightarrow> page \<Rightarrow> page" where
  "shareQuote_part001 nav href st =
     (let quote = quote_textContent st;
          author_s = author_textContent st
      in if quote = [] \<or> author_s = [] then logError ''No quote or author to share'' st
         else
           (let shareText = quote @ '' '' @ author_s;
                called = st\<lparr>shared := shared st @
                  [\<lparr>share_title = ''InkSpire Quote'', share_text = shareText,
                    share_url = href\<rparr>]\<rparr>
            in case nav of
                 ShareResolves \<Rightarrow> called
               | ShareRejects e \<Rightarrow>
                   logError (''Error sharing via Web Share API: '' @ error_toString e) called
               | NoShare \<Rightarrow>
                   st\<lparr>opened := opened st @
                     [(''https://twitter.com/intent/tweet?text='' @ encodeURIComponent shareText,
                       ''_blank'')]\<rparr>))"

subsection \<open>Auxiliary notions for the statements\<close>

text \<open>
  The shape the JSDoc of \<^verbatim>\<open>setQuote\<close> documents (\<^verbatim>\<open>@param {string} quoteObject.text\<close>): an
  object whose \<^verbatim>\<open>text\<close> is a string; the author may be missing or \<^verbatim>\<open>null\<close>.
\<close>

definition well_formed :: "elem \<Rightarrow> bool" where
  "well_formed q = (case q of Obj a (Str s) \<Rightarrow> True | _ \<Rightarrow> False)"

text \<open>
  The failure of the remote call in the words of the specification, which the source
  has no counterpart of: a network error, a body that is not JSON, or a body of
  malformed shape, that is, anything but an array of objects that each have a text.
\<close>

definition spec_malformed_shape :: "json_body \<Rightarrow> bool" where
  "spec_malformed_shape body =
     (case body of
        JsonArray R \<Rightarrow> \<not> list_all well_formed R
      | JsonString s \<Rightarrow> True
      | JsonNotIterable \<Rightarrow> True)"

fun spec_remote_fails :: "remote \<Rightarrow> bool" where
  "spec_remote_fails (FetchRejects e) = True"
| "spec_remote_fails (JsonRejects e) = True"
| "spec_remote_fails (JsonValue body) = spec_malformed_shape body"

text \<open>A page on which nothing is displayed yet: the concrete input of the examples.\<close>

definition blank_page :: page where
  "blank_page = \<lparr>data = [], quote_textContent = [], quote_classList = [],
     author_textContent = [], loader_hidden = False, mainContainer_hidden = False,
     console = [], opened = [], shared = []\<rparr>"

section \<open>Properties\<close>

subsection \<open>The product of doubles\<close>

declare bit_length.simps [simp del]

lemma bit_length_upper: "n < 2 ^ bit_length n"
proof (induction n rule: bit_length.induct)
  case (1 n)
  show ?case
  proof (cases "n = 0")
    case True
    then show ?thesis by (simp add: bit_length.simps)
  next
    case False
    with 1 have "n div 2 < 2 ^ bit_length (n div 2)" by simp
    then have "n < 2 * 2 ^ bit_length (n div 2)" by linarith
    with False show ?thesis by (simp add: bit_length.simps [of n])
  qed
qed

lemma bit_length_lower: "n \<noteq> 0 \<Longrightarrow> 2 ^ (bit_length n - 1) \<le> n"
proof (induction n rule: bit_length.induct)
  case (1 n)
  show ?case
  proof (cases "n div 2 = 0")
    case True
    with 1(2) have "n = 1" by linarith
    then show ?thesis by (simp add: bit_length.simps)
  next
    case False
    with 1 have ih: "2 ^ (bit_length (n div 2) - 1) \<le> n div 2" by simp
    from False have pos: "0 < bit_length (n div 2)"
      by (simp add: bit_length.simps [of "n div 2"])
    have "bit_length n - 1 = Suc (bit_length (n div 2) - 1)"
      using 1(2) pos by (simp add: bit_length.simps [of n])
    then have "(2::nat) ^ (bit_length n - 1) = 2 * 2 ^ (bit_length (n div 2) - 1)" by simp
    also have "\<dots> \<le> 2 * (n div 2)" using ih by simp
    also have "\<dots> \<le> n" by simp
    finally show ?thesis .
  qed
qed

lemma bit_length_big:
  assumes "53 < bit_length a"
  shows "a \<noteq> 0"
proof
  assume "a = 0"
  then have "bit_length a = 0" by (simp add: bit_length.simps)
  with assms show False by simp
qed

text \<open>A number of at most 53 bits is a significand already.\<close>

lemma round53_exact: "bit_length a \<le> 53 \<Longrightarrow> round53 a = a"
  by (simp add: round53_def)

text \<open>Rounding moves a longer number by at most half a unit of the last kept bit.\<close>

lemma round53_near:
  assumes "53 < bit_length a"
  shows "round53 a \<le> a + 2 ^ (bit_length a - 54)"
    and "a \<le> round53 a + 2 ^ (bit_length a - 54)"
proof -
  define s where "s = bit_length a - 53"
  define h :: nat where "h = 2 ^ (s - 1)"
  define q where "q = a div 2 ^ s"
  define rm where "rm = a mod 2 ^ s"
  have s: "0 < s" using assms by (simp add: s_def)
  have hh: "(2::nat) ^ s = 2 * h" using s by (cases s) (simp_all add: h_def)
  have a: "a = q * 2 ^ s + rm"
    using div_mult_mod_eq [of a "2 ^ s"] by (simp add: q_def rm_def)
  have rm: "rm < 2 * h" using hh by (simp add: rm_def flip: hh)
  have h54: "2 ^ (bit_length a - 54) = h" using assms by (simp add: h_def s_def)
  have r: "round53 a = (if h < rm \<or> (rm = h \<and> odd q) then q + 1 else q) * 2 ^ s"
    using assms by (simp add: round53_def Let_def s_def h_def q_def rm_def)
  show "round53 a \<le> a + 2 ^ (bit_length a - 54)"
    unfolding h54 r using a rm hh by (auto simp add: algebra_simps)
  show "a \<le> round53 a + 2 ^ (bit_length a - 54)"
    unfolding h54 r using a rm hh by (auto simp add: algebra_simps)
qed

text \<open>The rounded number has a significand of 53 bits: it is a double again.\<close>

lemma round53_significand:
  assumes "53 < bit_length a"
  shows "\<exists>q \<le> 2 ^ 53. round53 a = q * 2 ^ (bit_length a - 53)"
proof -
  define s where "s = bit_length a - 53"
  have "a < 2 ^ (53 + s)" using bit_length_upper [of a] assms by (simp add: s_def)
  then have "a < 2 ^ 53 * 2 ^ s" by (simp add: power_add)
  then have q: "a div 2 ^ s < 2 ^ 53" by (simp add: less_mult_imp_div_less)
  have "round53 a =
      (if 2 ^ (s - 1) < a mod 2 ^ s \<or> (a mod 2 ^ s = 2 ^ (s - 1) \<and> odd (a div 2 ^ s))
       then a div 2 ^ s + 1 else a div 2 ^ s) * 2 ^ s"
    using assms by (simp add: round53_def Let_def s_def)
  with q show ?thesis unfolding s_def [symmetric]
    by (intro exI [of _ "if 2 ^ (s - 1) < a mod 2 ^ s \<or>
          (a mod 2 ^ s = 2 ^ (s - 1) \<and> odd (a div 2 ^ s))
          then a div 2 ^ s + 1 else a div 2 ^ s"]) auto
qed

text \<open>The relative error of the rounding is at most \<open>2 ^ - 53\<close>.\<close>

lemma round53_error: "\<bar>real (round53 a) - real a\<bar> \<le> real a / 2 ^ 53"
proof (cases "bit_length a \<le> 53")
  case True
  then show ?thesis by (simp add: round53_exact)
next
  case False
  then have big: "53 < bit_length a" by simp
  define t where "t = bit_length a - 54"
  have bl: "bit_length a - 1 = t + 53" using big by (simp add: t_def)
  have "2 ^ (bit_length a - 1) \<le> a"
    by (rule bit_length_lower [OF bit_length_big [OF big]])
  then have "2 ^ (t + 53) \<le> a" by (simp only: bl)
  then have "real (2 ^ (t + 53)) \<le> real a" by (rule of_nat_mono)
  then have half: "(2::real) ^ t \<le> real a / 2 ^ 53" by (simp add: power_add field_simps)
  have "real (round53 a) \<le> real (a + 2 ^ t)" and "real a \<le> real (round53 a + 2 ^ t)"
    using round53_near [OF big] by (simp_all only: t_def of_nat_le_iff)
  then have "\<bar>real (round53 a) - real a\<bar> \<le> 2 ^ t" by simp
  with half show ?thesis by linarith
qed

lemma double_product_error:
  "\<bar>double_product r n - value_of r * real n\<bar> \<le> value_of r * real n / 2 ^ 53"
proof -
  have "\<bar>real (round53 (mantissa r * n)) - real (mantissa r * n)\<bar> / 2 ^ exponent r
          \<le> real (mantissa r * n) / 2 ^ 53 / 2 ^ exponent r"
    by (intro divide_right_mono round53_error) simp
  then show ?thesis
    by (simp add: double_product_def value_of_def flip: diff_divide_distrib)
qed

lemma double_product_exact:
  "bit_length (mantissa r * n) \<le> 53 \<Longrightarrow> double_product r n = value_of r * real n"
  by (simp add: double_product_def value_of_def round53_exact)

lemma is_random_unit: "is_random r \<Longrightarrow> 0 \<le> value_of r \<and> value_of r < 1"
proof -
  assume "is_random r"
  then have "mantissa r < 2 ^ exponent r" by (simp add: is_random_def)
  then have "real (mantissa r) < real (2 ^ exponent r)" by (simp only: of_nat_less_iff)
  then show ?thesis by (simp add: value_of_def)
qed

text \<open>
  The product of a double below 1 and \<open>n\<close> stays below \<open>n\<close> after rounding: the exact
  product is at least \<open>n / 2 ^ k\<close> below \<open>n\<close>, and rounding adds less than that.
\<close>

lemma round53_in_range:
  assumes "m < 2 ^ 53" "m < 2 ^ k" "0 < n"
  shows "round53 (m * n) < n * 2 ^ k"
proof -
  have "m + 1 \<le> 2 ^ k" using assms(2) by simp
  then have "(m + 1) * n \<le> 2 ^ k * n" by (rule mult_le_mono1)
  then have top: "m * n + n \<le> n * 2 ^ k" by (simp add: algebra_simps)
  have "round53 (m * n) < m * n + n"
  proof (cases "bit_length (m * n) \<le> 53")
    case True
    then show ?thesis using assms(3) by (simp add: round53_exact)
  next
    case False
    then have big: "53 < bit_length (m * n)" by simp
    define t where "t = bit_length (m * n) - 54"
    have bl: "bit_length (m * n) - 1 = t + 53" using big by (simp add: t_def)
    have "2 ^ (bit_length (m * n) - 1) \<le> m * n"
      by (rule bit_length_lower [OF bit_length_big [OF big]])
    then have "2 ^ (t + 53) \<le> m * n" by (simp only: bl)
    also have "m * n < 2 ^ 53 * n" using assms(1,3) by simp
    finally have "(2::nat) ^ t * 2 ^ 53 < n * 2 ^ 53" by (simp add: power_add mult.commute)
    then have "2 ^ t < n" by simp
    then show ?thesis using round53_near(1) [OF big] by (simp add: t_def)
  qed
  with top show ?thesis by linarith
qed

text \<open>The floor of the product, computed on the naturals.\<close>

lemma random_index_div:
  "random_index r n = int (round53 (mantissa r * n) div 2 ^ exponent r)"
proof -
  have "(2::real) ^ exponent r = real (2 ^ exponent r)" by simp
  then show ?thesis
    unfolding random_index_def double_product_def by (simp only: floor_divide_of_nat_eq)
qed

lemma random_index_range:
  assumes "is_random r" "0 < n"
  shows "0 \<le> random_index r n" "random_index r n < int n"
proof -
  show "0 \<le> random_index r n" by (simp add: random_index_div)
  have "round53 (mantissa r * n) < n * 2 ^ exponent r"
    using assms by (intro round53_in_range) (simp_all add: is_random_def)
  then have "round53 (mantissa r * n) div 2 ^ exponent r < n"
    by (simp add: less_mult_imp_div_less)
  then show "random_index r n < int n" by (simp add: random_index_div)
qed

lemma random_index_zero: "random_index (Rand 0 k) n = 0"
  by (simp add: random_index_div round53_def bit_length.simps [of 0])

text \<open>
  The product is the double's, not the real one: \<^verbatim>\<open>0.5714285714285714 * 7\<close> is \<^verbatim>\<open>4\<close>
  in JavaScript, and \<^verbatim>\<open>0.6666666666666666 * 3\<close> is \<^verbatim>\<open>2\<close>, while the real products are just
  below. The doubles are \<open>2573485501354569 / 2 ^ 52\<close> and \<open>6004799503160661 / 2 ^ 53\<close>.
  Both are ties that go up, to an even significand; \<^verbatim>\<open>0.33333333333333337 * 3\<close>, with the
  double \<open>3002399751580331 / 2 ^ 53\<close>, is a tie that goes down, to \<^verbatim>\<open>1\<close>.
\<close>

lemma random_index_rounded_products:
  "random_index (Rand 2573485501354569 52) 7 = 4 \<and>
   random_index (Rand 6004799503160661 53) 3 = 2 \<and>
   double_product (Rand 3002399751580331 53) 3 = 1 \<and>
   random_index (Rand 1 1) 3 = 1"
  by (simp add: random_index_div double_product_def round53_def bit_length.simps Let_def)

subsection \<open>Basic facts\<close>

lemma classList_toggle_mem: "token \<in> set (classList_toggle token force cl) \<longleftrightarrow> force"
  by (simp add: classList_toggle_def)

lemma setQuote_Str:
  "setQuote (Obj a (Str s)) st =
     (Normal, st\<lparr>quote_textContent := s,
                 author_textContent := '' - '' @ template_string (default_value a (Str ''Unknown'')),
                 quote_classList := classList_toggle ''long-quote'' (120 < length s) (quote_classList st)\<rparr>)"
  by (simp add: Let_def)

lemma setQuote_author:
  "author_textContent (snd (setQuote (Obj a t) st)) =
     '' - '' @ template_string (default_value a (Str ''Unknown''))"
  by (cases t) (simp_all add: Let_def)

lemma setQuote_data: "data (snd (setQuote q st)) = data st"
  by (cases q; cases "text_prop q") (auto simp add: Let_def split: option.splits)

lemma setQuote_console: "console (snd (setQuote q st)) = console st"
  by (cases q; cases "text_prop q") (auto simp add: Let_def split: option.splits)

lemma setQuote_well_formed: "well_formed q \<Longrightarrow> fst (setQuote q st) = Normal"
  by (cases q; cases "text_prop q") (auto simp add: well_formed_def Let_def)

lemma js_index_nth: "0 \<le> i \<Longrightarrow> i < int (length xs) \<Longrightarrow> js_index xs i = xs ! nat i"
  by (simp add: js_index_def)

lemma js_index_member: "0 \<le> i \<Longrightarrow> i < int (length xs) \<Longrightarrow> js_index xs i \<in> set xs"
  by (simp add: js_index_def)

lemma js_index_Nil: "js_index [] i = Undef"
  by (auto simp add: js_index_def)

text \<open>The end of both \<^verbatim>\<open>newQuote\<close>s: \<^verbatim>\<open>completeLoading\<close> runs unless \<^verbatim>\<open>setQuote\<close> threw.\<close>

lemma propagate_eq:
  "(case p of (Throw e, s) \<Rightarrow> (Throw e, s) | (Normal, s) \<Rightarrow> (Normal, completeLoading s)) =
     (fst p, if fst p = Normal then completeLoading (snd p) else snd p)"
  by (cases p; cases "fst p") auto

lemma data_simps [simp]:
  "data (loading st) = data st" "data (completeLoading st) = data st"
  "data (logError m st) = data st"
  by (simp_all add: loading_def completeLoading_def logError_def)

lemma console_simps [simp]:
  "console (loading st) = console st" "console (completeLoading st) = console st"
  "console (logError m st) = console st @ [Msg m]"
  by (simp_all add: loading_def completeLoading_def logError_def)

subsection \<open>\<^verbatim>\<open>newQuote\<close> leaves \<^verbatim>\<open>data\<close> alone and logs only on an empty array\<close>

lemma newQuote_script_data: "data (snd (newQuote_script r st)) = data st"
  by (simp add: newQuote_script_def Let_def propagate_eq setQuote_data)

lemma newQuote_part001_data: "data (snd (newQuote_part001 r st)) = data st"
  by (simp add: newQuote_part001_def Let_def propagate_eq setQuote_data)

lemma newQuote_script_console:
  "console (snd (newQuote_script r st)) =
     console st @ (if data st = [] then [Msg ''No quotes to display''] else [])"
  by (simp add: newQuote_script_def Let_def propagate_eq setQuote_console)

lemma newQuote_part001_console:
  "console (snd (newQuote_part001 r st)) =
     console st @ (if data st = [] then [Msg ''No quotes to display''] else [])"
  by (simp add: newQuote_part001_def Let_def propagate_eq setQuote_console)

lemma newQuote_script_normal:
  assumes "is_random r" "data st \<noteq> []" "\<forall>q \<in> set (data st). well_formed q"
  shows "fst (newQuote_script r st) = Normal"
proof -
  have "js_index (data st) (random_index r (length (data st))) \<in> set (data st)"
    using assms random_index_range [of r "length (data st)"] js_index_member by simp
  then have "well_formed (js_index (data st) (random_index r (length (data st))))"
    using assms(3) by blast
  then show ?thesis
    using assms(2) by (simp add: newQuote_script_def Let_def propagate_eq setQuote_well_formed)
qed

lemma newQuote_part001_normal:
  assumes "is_random r" "\<forall>q \<in> set (data st). well_formed q"
  shows "fst (newQuote_part001 r st) = Normal"
proof (cases "data st = []")
  case True
  then show ?thesis by (simp add: newQuote_part001_def Let_def)
next
  case False
  have "js_index (data st) (random_index r (length (data st))) \<in> set (data st)"
    using assms False random_index_range [of r "length (data st)"] js_index_member by simp
  then have "well_formed (js_index (data st) (random_index r (length (data st))))"
    using assms(2) by blast
  then show ?thesis
    using False by (simp add: newQuote_part001_def Let_def propagate_eq setQuote_well_formed)
qed

subsection \<open>\<^verbatim>\<open>data\<close> after \<^verbatim>\<open>getQuotes\<close>\<close>

text \<open>
  \<^verbatim>\<open>data\<close> is the local list alone when the \<^verbatim>\<open>try\<close> block threw, and what the \<^verbatim>\<open>try\<close>
  block assigned otherwise.
\<close>

lemma getQuotes_script_data:
  "data (snd (getQuotes_script L rem r1 r2 st)) =
     (case fst (try_block (newQuote_script r1) L rem (loading st)) of
        Normal \<Rightarrow> data (snd (try_block (newQuote_script r1) L rem (loading st)))
      | Throw e \<Rightarrow> L)"
  by (cases "try_block (newQuote_script r1) L rem (loading st)";
      cases "fst (try_block (newQuote_script r1) L rem (loading st))")
     (auto simp add: getQuotes_script_def Let_def newQuote_script_data)

lemma getQuotes_part001_data:
  "data (snd (getQuotes_part001 L rem r1 r2 st)) =
     (case fst (try_block (newQuote_part001 r1) L rem (loading st)) of
        Normal \<Rightarrow> data (snd (try_block (newQuote_part001 r1) L rem (loading st)))
      | Throw e \<Rightarrow> L)"
  by (cases "try_block (newQuote_part001 r1) L rem (loading st)";
      cases "fst (try_block (newQuote_part001 r1) L rem (loading st))")
     (auto simp add: getQuotes_part001_def Let_def newQuote_part001_data)

lemma try_block_data_script:
  "fst (try_block (newQuote_script r) L rem st) = Normal \<Longrightarrow>
     \<exists>R. data (snd (try_block (newQuote_script r) L rem st)) = L @ R"
  by (auto simp add: try_block_def newQuote_script_data split: remote.splits option.splits)

lemma try_block_data_part001:
  "fst (try_block (newQuote_part001 r) L rem st) = Normal \<Longrightarrow>
     \<exists>R. data (snd (try_block (newQuote_part001 r) L rem st)) = L @ R"
  by (auto simp add: try_block_def newQuote_part001_data split: remote.splits option.splits)

text \<open>The three ways in which the \<^verbatim>\<open>try\<close> block throws before \<^verbatim>\<open>data\<close> is assigned.\<close>

lemma try_block_failure:
  "rem = FetchRejects e \<or> rem = JsonRejects e \<or>
     (rem = JsonValue JsonNotIterable \<and> e = not_iterable_error) \<Longrightarrow>
   try_block nq L rem st = (Throw e, st)"
  by (auto simp add: try_block_def spread_def)

text \<open>Whatever makes the \<^verbatim>\<open>try\<close> block throw, the \<^verbatim>\<open>catch\<close> block logs it and resets \<^verbatim>\<open>data\<close>.\<close>

lemma getQuotes_script_catch:
  assumes "fst (try_block (newQuote_script r1) L rem (loading st)) = Throw e"
  shows "data (snd (getQuotes_script L rem r1 r2 st)) = L \<and>
         MsgErr ''Error fetching quotes'' e \<in> set (console (snd (getQuotes_script L rem r1 r2 st)))"
proof -
  obtain s where t: "try_block (newQuote_script r1) L rem (loading st) = (Throw e, s)"
    using assms by (cases "try_block (newQuote_script r1) L rem (loading st)") simp
  show ?thesis
    by (simp add: getQuotes_script_def t Let_def newQuote_script_data newQuote_script_console)
qed

lemma getQuotes_part001_catch:
  assumes "fst (try_block (newQuote_part001 r1) L rem (loading st)) = Throw e"
  shows "data (snd (getQuotes_part001 L rem r1 r2 st)) = L \<and>
         Msg (''Error fetching quotes: '' @ error_toString e)
           \<in> set (console (snd (getQuotes_part001 L rem r1 r2 st)))"
proof -
  obtain s where t: "try_block (newQuote_part001 r1) L rem (loading st) = (Throw e, s)"
    using assms by (cases "try_block (newQuote_part001 r1) L rem (loading st)") simp
  show ?thesis
    by (simp add: getQuotes_part001_def t Let_def newQuote_part001_data newQuote_part001_console)
qed

section \<open>The claims\<close>

subsection \<open>Selection on an empty \<^verbatim>\<open>data\<close>\<close>

text \<open>
  In \<^verbatim>\<open>src/unnamed/part_001\<close> an empty \<^verbatim>\<open>data\<close> makes \<^verbatim>\<open>newQuote\<close> log, show the main
  container again and return: \<^verbatim>\<open>setQuote\<close> is not called and the displays are as before.
\<close>

lemma newQuote_part001_empty:
  "newQuote_part001 r (st\<lparr>data := []\<rparr>) =
     (Normal, completeLoading (logError ''No quotes to display'' (loading (st\<lparr>data := []\<rparr>))))"
  by (simp add: newQuote_part001_def Let_def)

lemma newQuote_part001_empty_display:
  "quote_textContent (snd (newQuote_part001 r (st\<lparr>data := []\<rparr>))) = quote_textContent st \<and>
   author_textContent (snd (newQuote_part001 r (st\<lparr>data := []\<rparr>))) = author_textContent st \<and>
   quote_classList (snd (newQuote_part001 r (st\<lparr>data := []\<rparr>))) = quote_classList st \<and>
   console (snd (newQuote_part001 r (st\<lparr>data := []\<rparr>))) =
     console st @ [Msg ''No quotes to display'']"
  by (simp add: newQuote_part001_empty completeLoading_def logError_def loading_def)

text \<open>
  Claim C1 says that \<^verbatim>\<open>newQuote\<close> on an empty \<^verbatim>\<open>data\<close> logs an error and makes no render
  call. That is what \<^verbatim>\<open>src/unnamed/part_001\<close> does (the two lemmas above), and not what
  \<^verbatim>\<open>src/script.js\<close> does: there the result of \<^verbatim>\<open>newQuote\<close> on an empty \<^verbatim>\<open>data\<close>, for every
  random number and every page, is the result of the call \<^verbatim>\<open>setQuote(undefined)\<close> made after
  the error is logged. That call throws a \<^verbatim>\<open>TypeError\<close>, so \<^verbatim>\<open>completeLoading\<close> is not
  reached: the main container stays hidden and the loader stays shown.
\<close>

theorem newQuote_script_empty_calls_setQuote:
  "newQuote_script r (st\<lparr>data := []\<rparr>) =
     setQuote Undef (logError ''No quotes to display'' (loading (st\<lparr>data := []\<rparr>))) \<and>
   fst (newQuote_script r (st\<lparr>data := []\<rparr>)) = Throw destructure_error \<and>
   mainContainer_hidden (snd (newQuote_script r (st\<lparr>data := []\<rparr>))) \<and>
   \<not> loader_hidden (snd (newQuote_script r (st\<lparr>data := []\<rparr>)))"
  by (simp add: newQuote_script_def Let_def js_index_Nil logError_def loading_def)

subsection \<open>Acquisition\<close>

text \<open>
  Claim C2 says that in every run of \<^verbatim>\<open>getQuotes\<close> in which the remote call fails
  (network error, body that is not JSON, malformed shape) the failure is logged and
  \<^verbatim>\<open>data\<close> is the local list \<open>L\<close> alone. This fails for a body of malformed shape that can
  be spread: with one local quote, the body \<^verbatim>\<open>[{"author":"Y"}, null]\<close> and a random number
  0, the local quote is picked and rendered, nothing throws and nothing is logged, and
  \<^verbatim>\<open>data\<close> holds the two malformed entries after the local quote, in both files.
\<close>

theorem getQuotes_malformed_shape_counterexample:
  "spec_remote_fails (JsonValue (JsonArray [Obj (Str ''Y'') Undefined, Nul])) \<and>
   is_random (Rand 0 0) \<and>
   getQuotes_script [Obj (Str ''X'') (Str ''A'')]
     (JsonValue (JsonArray [Obj (Str ''Y'') Undefined, Nul])) (Rand 0 0) (Rand 0 0) blank_page =
     (Normal, blank_page\<lparr>data := [Obj (Str ''X'') (Str ''A''), Obj (Str ''Y'') Undefined, Nul],
        quote_textContent := ''A'', author_textContent := '' - X'', loader_hidden := True\<rparr>) \<and>
   getQuotes_part001 [Obj (Str ''X'') (Str ''A'')]
     (JsonValue (JsonArray [Obj (Str ''Y'') Undefined, Nul])) (Rand 0 0) (Rand 0 0) blank_page =
     (Normal, blank_page\<lparr>data := [Obj (Str ''X'') (Str ''A''), Obj (Str ''Y'') Undefined, Nul],
        quote_textContent := ''A'', author_textContent := '' - X'', loader_hidden := True\<rparr>) \<and>
   data (snd (getQuotes_script [Obj (Str ''X'') (Str ''A'')]
     (JsonValue (JsonArray [Obj (Str ''Y'') Undefined, Nul])) (Rand 0 0) (Rand 0 0) blank_page)) \<noteq>
     [Obj (Str ''X'') (Str ''A'')] \<and>
   console (snd (getQuotes_script [Obj (Str ''X'') (Str ''A'')]
     (JsonValue (JsonArray [Obj (Str ''Y'') Undefined, Nul])) (Rand 0 0) (Rand 0 0) blank_page)) = []"
  by (simp add: spec_malformed_shape_def well_formed_def is_random_def
        getQuotes_script_def getQuotes_part001_def try_block_def spread_def
        newQuote_script_def newQuote_part001_def random_index_zero js_index_def
        loading_def completeLoading_def classList_toggle_def blank_page_def Let_def)

text \<open>The same happens with a body that is a JSON string, which spreads into its characters.\<close>

lemma getQuotes_string_body:
  "spec_remote_fails (JsonValue (JsonString ''no'')) \<and>
   data (snd (getQuotes_script [Obj (Str ''X'') (Str ''A'')]
     (JsonValue (JsonString ''no'')) (Rand 0 0) (Rand 0 0) blank_page)) =
     [Obj (Str ''X'') (Str ''A''), StrPrim ''n'', StrPrim ''o''] \<and>
   console (snd (getQuotes_script [Obj (Str ''X'') (Str ''A'')]
     (JsonValue (JsonString ''no'')) (Rand 0 0) (Rand 0 0) blank_page)) = []"
  by (simp add: spec_malformed_shape_def
        getQuotes_script_def try_block_def spread_def
        newQuote_script_def random_index_zero js_index_def
        loading_def completeLoading_def classList_toggle_def blank_page_def Let_def)

text \<open>
  Claim C2, amended: in every run of \<^verbatim>\<open>getQuotes\<close> in which \<^verbatim>\<open>fetch\<close> rejects,
  \<^verbatim>\<open>response.json()\<close> rejects or the parsed body is not iterable, the failure is logged
  and \<^verbatim>\<open>data\<close> is the local list \<open>L\<close>, in its order, and nothing else; the console
  then holds the failure, followed by the error of \<^verbatim>\<open>newQuote\<close> when \<open>L\<close> is empty (first
  part, both files). The same holds of every run in which the \<^verbatim>\<open>try\<close> block throws for
  whatever reason, which includes a malformed entry that is picked for display and
  cannot be rendered (second and third part).
\<close>

theorem getQuotes_failure_local_only:
  "(rem = FetchRejects e \<or> rem = JsonRejects e \<or>
      (rem = JsonValue JsonNotIterable \<and> e = not_iterable_error) \<longrightarrow>
      data (snd (getQuotes_script L rem r1 r2 st)) = L \<and>
      console (snd (getQuotes_script L rem r1 r2 st)) =
        console st @ [MsgErr ''Error fetching quotes'' e] @
          (if L = [] then [Msg ''No quotes to display''] else []) \<and>
      data (snd (getQuotes_part001 L rem r1 r2 st)) = L \<and>
      console (snd (getQuotes_part001 L rem r1 r2 st)) =
        console st @ [Msg (''Error fetching quotes: '' @ error_toString e)] @
          (if L = [] then [Msg ''No quotes to display''] else [])) \<and>
   (fst (try_block (newQuote_script r1) L rem (loading st)) = Throw e \<longrightarrow>
      data (snd (getQuotes_script L rem r1 r2 st)) = L \<and>
      MsgErr ''Error fetching quotes'' e
        \<in> set (console (snd (getQuotes_script L rem r1 r2 st)))) \<and>
   (fst (try_block (newQuote_part001 r1) L rem (loading st)) = Throw e \<longrightarrow>
      data (snd (getQuotes_part001 L rem r1 r2 st)) = L \<and>
      Msg (''Error fetching quotes: '' @ error_toString e)
        \<in> set (console (snd (getQuotes_part001 L rem r1 r2 st))))"
proof -
  have "data (snd (getQuotes_script L rem r1 r2 st)) = L \<and>
      console (snd (getQuotes_script L rem r1 r2 st)) =
        console st @ [MsgErr ''Error fetching quotes'' e] @
          (if L = [] then [Msg ''No quotes to display''] else []) \<and>
      data (snd (getQuotes_part001 L rem r1 r2 st)) = L \<and>
      console (snd (getQuotes_part001 L rem r1 r2 st)) =
        console st @ [Msg (''Error fetching quotes: '' @ error_toString e)] @
          (if L = [] then [Msg ''No quotes to display''] else [])"
    if f: "rem = FetchRejects e \<or> rem = JsonRejects e \<or>
      (rem = JsonValue JsonNotIterable \<and> e = not_iterable_error)"
    by (simp add: getQuotes_script_def getQuotes_part001_def try_block_failure [OF f] Let_def
          newQuote_script_data newQuote_part001_data
          newQuote_script_console newQuote_part001_console)
  then show ?thesis
    using getQuotes_script_catch [of r1 L rem st e r2]
      getQuotes_part001_catch [of r1 L rem st e r2]
    by blast
qed

theorem getQuotes_failure_local_only_witness:
  "fst (try_block (newQuote_script (Rand 0 0)) [Obj (Str ''X'') (Str ''A'')]
     (FetchRejects (JsError ''TypeError'' ''Failed to fetch'')) (loading blank_page)) =
     Throw (JsError ''TypeError'' ''Failed to fetch'') \<and>
   fst (try_block (newQuote_part001 (Rand 0 0)) [Obj (Str ''X'') (Str ''A'')]
     (FetchRejects (JsError ''TypeError'' ''Failed to fetch'')) (loading blank_page)) =
     Throw (JsError ''TypeError'' ''Failed to fetch'') \<and>
   data (snd (getQuotes_script [Obj (Str ''X'') (Str ''A'')]
     (FetchRejects (JsError ''TypeError'' ''Failed to fetch'')) (Rand 0 0) (Rand 0 0)
     blank_page)) = [Obj (Str ''X'') (Str ''A'')] \<and>
   console (snd (getQuotes_script [Obj (Str ''X'') (Str ''A'')]
     (FetchRejects (JsError ''TypeError'' ''Failed to fetch'')) (Rand 0 0) (Rand 0 0)
     blank_page)) =
     [MsgErr ''Error fetching quotes'' (JsError ''TypeError'' ''Failed to fetch'')] \<and>
   data (snd (getQuotes_part001 [Obj (Str ''X'') (Str ''A'')]
     (FetchRejects (JsError ''TypeError'' ''Failed to fetch'')) (Rand 0 0) (Rand 0 0)
     blank_page)) = [Obj (Str ''X'') (Str ''A'')] \<and>
   console (snd (getQuotes_part001 [Obj (Str ''X'') (Str ''A'')]
     (FetchRejects (JsError ''TypeError'' ''Failed to fetch'')) (Rand 0 0) (Rand 0 0)
     blank_page)) =
     [Msg ''Error fetching quotes: TypeError: Failed to fetch'']"
  using getQuotes_failure_local_only [of "FetchRejects (JsError ''TypeError'' ''Failed to fetch'')"
    "JsError ''TypeError'' ''Failed to fetch''" "[Obj (Str ''X'') (Str ''A'')]"
    "Rand 0 0" "Rand 0 0" blank_page]
  by (simp add: blank_page_def error_toString_def try_block_def)

text \<open>
  Claim C3: whatever the local list \<open>L\<close> and the outcome of the remote call, \<^verbatim>\<open>data\<close>
  after \<^verbatim>\<open>getQuotes\<close> is at least as long as \<open>L\<close>; so it is not empty when \<open>L\<close> is not.
  This holds in both files, also when \<^verbatim>\<open>getQuotes\<close> rejects.
\<close>

theorem getQuotes_length_ge_local:
  "length L \<le> length (data (snd (getQuotes_script L rem r1 r2 st))) \<and>
   length L \<le> length (data (snd (getQuotes_part001 L rem r1 r2 st))) \<and>
   (L \<noteq> [] \<longrightarrow> data (snd (getQuotes_script L rem r1 r2 st)) \<noteq> [] \<and>
                data (snd (getQuotes_part001 L rem r1 r2 st)) \<noteq> [])"
proof -
  have a: "length L \<le> length (data (snd (getQuotes_script L rem r1 r2 st)))"
    using try_block_data_script [of r1 L rem "loading st"]
    by (cases "fst (try_block (newQuote_script r1) L rem (loading st))")
       (auto simp add: getQuotes_script_data)
  have b: "length L \<le> length (data (snd (getQuotes_part001 L rem r1 r2 st)))"
    using try_block_data_part001 [of r1 L rem "loading st"]
    by (cases "fst (try_block (newQuote_part001 r1) L rem (loading st))")
       (auto simp add: getQuotes_part001_data)
  from a b show ?thesis by auto
qed

theorem getQuotes_length_ge_local_witness:
  "[Obj (Str ''X'') (Str ''A'')] \<noteq> [] \<and>
   data (snd (getQuotes_script [Obj (Str ''X'') (Str ''A'')] (JsonValue JsonNotIterable)
     (Rand 0 0) (Rand 0 0) blank_page)) \<noteq> [] \<and>
   data (snd (getQuotes_part001 [Obj (Str ''X'') (Str ''A'')] (JsonValue JsonNotIterable)
     (Rand 0 0) (Rand 0 0) blank_page)) \<noteq> []"
  using getQuotes_length_ge_local [of "[Obj (Str ''X'') (Str ''A'')]"
    "JsonValue JsonNotIterable" "Rand 0 0" "Rand 0 0" blank_page]
  by simp

text \<open>
  Claim C4: when the remote call succeeds with the list \<open>R\<close>, \<^verbatim>\<open>data\<close> is \<open>L\<close> followed by
  \<open>R\<close>, nothing removed. The quotes are those of the data model, objects whose text is a
  string, and \<open>r1\<close> is a value of \<^verbatim>\<open>Math.random()\<close>, a double from 0 to below 1. (In \<^verbatim>\<open>src/script.js\<close> with both lists
  empty the \<^verbatim>\<open>catch\<close> block runs, and assigns the empty \<open>L\<close>.)
\<close>

theorem getQuotes_success_concat:
  assumes "is_random r1" "\<forall>q \<in> set (L @ R). well_formed q"
  shows "data (snd (getQuotes_script L (JsonValue (JsonArray R)) r1 r2 st)) = L @ R \<and>
         data (snd (getQuotes_part001 L (JsonValue (JsonArray R)) r1 r2 st)) = L @ R"
proof -
  let ?st = "(loading st)\<lparr>data := L @ R\<rparr>"
  have p: "fst (newQuote_part001 r1 ?st) = Normal"
    using assms by (intro newQuote_part001_normal) simp_all
  have b: "data (snd (getQuotes_part001 L (JsonValue (JsonArray R)) r1 r2 st)) = L @ R"
    using p by (simp add: getQuotes_part001_data try_block_def spread_def newQuote_part001_data)
  have a: "data (snd (getQuotes_script L (JsonValue (JsonArray R)) r1 r2 st)) = L @ R"
  proof (cases "L @ R = []")
    case True
    then show ?thesis
      by (simp add: getQuotes_script_data try_block_def spread_def newQuote_script_data
            split: completion.splits)
  next
    case False
    have "fst (newQuote_script r1 ?st) = Normal"
      using assms False by (intro newQuote_script_normal) simp_all
    then show ?thesis
      by (simp add: getQuotes_script_data try_block_def spread_def newQuote_script_data)
  qed
  from a b show ?thesis by simp
qed

theorem getQuotes_success_concat_witness:
  "is_random (Rand 1 1) \<and>
   well_formed (Obj (Str ''X'') (Str ''A'')) \<and> well_formed (Obj Undefined (Str ''B'')) \<and>
   data (snd (getQuotes_script [Obj (Str ''X'') (Str ''A'')]
     (JsonValue (JsonArray [Obj Undefined (Str ''B''), Obj (Str ''X'') (Str ''A'')]))
     (Rand 1 1) (Rand 0 0) blank_page)) =
     [Obj (Str ''X'') (Str ''A''), Obj Undefined (Str ''B''), Obj (Str ''X'') (Str ''A'')] \<and>
   data (snd (getQuotes_part001 [Obj (Str ''X'') (Str ''A'')]
     (JsonValue (JsonArray [Obj Undefined (Str ''B''), Obj (Str ''X'') (Str ''A'')]))
     (Rand 1 1) (Rand 0 0) blank_page)) =
     [Obj (Str ''X'') (Str ''A''), Obj Undefined (Str ''B''), Obj (Str ''X'') (Str ''A'')]"
  using getQuotes_success_concat [of "Rand 1 1" "[Obj (Str ''X'') (Str ''A'')]"
    "[Obj Undefined (Str ''B''), Obj (Str ''X'') (Str ''A'')]" "Rand 0 0" blank_page]
  by (simp add: well_formed_def is_random_def)

text \<open>
  Outside the data model the \<^verbatim>\<open>catch\<close> block also runs when the entry picked for display
  cannot be rendered: a remote entry without text, picked, resets \<^verbatim>\<open>data\<close> to \<open>L\<close>.
\<close>

lemma getQuotes_unrenderable_entry:
  "data (snd (getQuotes_part001 [] (JsonValue (JsonArray [Obj (Str ''X'') Undefined]))
     (Rand 0 0) (Rand 0 0) blank_page)) = [] \<and>
   data (snd (getQuotes_script [] (JsonValue (JsonArray [Obj (Str ''X'') Undefined]))
     (Rand 0 0) (Rand 0 0) blank_page)) = []"
  by (simp add: getQuotes_part001_data getQuotes_script_data try_block_def spread_def
        newQuote_part001_def newQuote_script_def Let_def random_index_zero js_index_def
        blank_page_def loading_def)

subsection \<open>Selection on a non-empty \<^verbatim>\<open>data\<close>\<close>

text \<open>
  Claim C5: on a non-empty \<^verbatim>\<open>data\<close> and for a random number \<open>r\<close> with \<open>0 \<le> r < 1\<close>,
  the index that \<^verbatim>\<open>newQuote\<close> computes is the floor of \<open>r \<times> length\<close>, the product taken as
  JavaScript takes it, on doubles (within \<open>2 ^ - 53\<close> of the real product, relatively);
  the index is in range, the entry read there is a member of \<^verbatim>\<open>data\<close>, and this entry is
  what \<^verbatim>\<open>setQuote\<close> is called with, in both files.
\<close>

theorem newQuote_index_in_range:
  assumes "data st \<noteq> []" "is_random r"
  shows "0 \<le> value_of r \<and> value_of r < 1 \<and>
         random_index r (length (data st)) = \<lfloor>double_product r (length (data st))\<rfloor> \<and>
         \<bar>double_product r (length (data st)) - value_of r * real (length (data st))\<bar>
           \<le> value_of r * real (length (data st)) / 2 ^ 53 \<and>
         0 \<le> random_index r (length (data st)) \<and>
         random_index r (length (data st)) < int (length (data st)) \<and>
         js_index (data st) (random_index r (length (data st))) \<in> set (data st) \<and>
         newQuote_script r st =
           (case setQuote (data st ! nat (random_index r (length (data st)))) (loading st) of
              (Throw e, s) \<Rightarrow> (Throw e, s) | (Normal, s) \<Rightarrow> (Normal, completeLoading s)) \<and>
         newQuote_part001 r st =
           (case setQuote (data st ! nat (random_index r (length (data st)))) (loading st) of
              (Throw e, s) \<Rightarrow> (Throw e, s) | (Normal, s) \<Rightarrow> (Normal, completeLoading s))"
proof -
  have n: "0 < length (data st)" using assms(1) by simp
  have u: "0 \<le> value_of r \<and> value_of r < 1"
    using is_random_unit [OF assms(2)] .
  have f: "random_index r (length (data st)) = \<lfloor>double_product r (length (data st))\<rfloor>"
    by (simp only: random_index_def)
  have lo: "0 \<le> random_index r (length (data st))"
    using random_index_range(1) [OF assms(2) n] .
  have hi: "random_index r (length (data st)) < int (length (data st))"
    using random_index_range(2) [OF assms(2) n] .
  have m: "js_index (data st) (random_index r (length (data st))) \<in> set (data st)"
    using js_index_member [OF lo hi] .
  have a: "newQuote_script r st =
           (case setQuote (data st ! nat (random_index r (length (data st)))) (loading st) of
              (Throw e, s) \<Rightarrow> (Throw e, s) | (Normal, s) \<Rightarrow> (Normal, completeLoading s))"
    using assms(1) by (simp add: newQuote_script_def Let_def js_index_nth [OF lo hi])
  have b: "newQuote_part001 r st =
           (case setQuote (data st ! nat (random_index r (length (data st)))) (loading st) of
              (Throw e, s) \<Rightarrow> (Throw e, s) | (Normal, s) \<Rightarrow> (Normal, completeLoading s))"
    using assms(1) by (simp add: newQuote_part001_def Let_def js_index_nth [OF lo hi])
  from u f lo hi m a b double_product_error [of r "length (data st)"] show ?thesis by blast
qed

theorem newQuote_index_in_range_witness:
  "data (blank_page\<lparr>data := [Obj (Str ''X'') (Str ''A''), Obj Undefined (Str ''B''),
                              Obj Null (Str ''C'')]\<rparr>) \<noteq> [] \<and>
   is_random (Rand 6004799503160661 53) \<and>
   random_index (Rand 6004799503160661 53) 3 = 2 \<and>
   newQuote_script (Rand 6004799503160661 53)
     (blank_page\<lparr>data := [Obj (Str ''X'') (Str ''A''), Obj Undefined (Str ''B''),
                           Obj Null (Str ''C'')]\<rparr>) =
     (Normal, blank_page\<lparr>data := [Obj (Str ''X'') (Str ''A''), Obj Undefined (Str ''B''),
                                   Obj Null (Str ''C'')],
        quote_textContent := ''C'', author_textContent := '' - null'',
        mainContainer_hidden := False, loader_hidden := True\<rparr>) \<and>
   newQuote_part001 (Rand 6004799503160661 53)
     (blank_page\<lparr>data := [Obj (Str ''X'') (Str ''A''), Obj Undefined (Str ''B''),
                           Obj Null (Str ''C'')]\<rparr>) =
     (Normal, blank_page\<lparr>data := [Obj (Str ''X'') (Str ''A''), Obj Undefined (Str ''B''),
                                   Obj Null (Str ''C'')],
        quote_textContent := ''C'', author_textContent := '' - null'',
        mainContainer_hidden := False, loader_hidden := True\<rparr>)"
proof -
  let ?st = "blank_page\<lparr>data := [Obj (Str ''X'') (Str ''A''), Obj Undefined (Str ''B''),
                                  Obj Null (Str ''C'')]\<rparr>"
  have i: "random_index (Rand 6004799503160661 53) 3 = 2"
    by (simp add: random_index_div round53_def bit_length.simps Let_def)
  have r: "is_random (Rand 6004799503160661 53)"
    by (simp add: is_random_def)
  have ne: "data ?st \<noteq> []" by simp
  have len: "length (data ?st) = 3" by simp
  note t = newQuote_index_in_range [OF ne r, unfolded len i]
  show ?thesis
    using t i r
    by (simp add: blank_page_def loading_def completeLoading_def classList_toggle_def Let_def)
qed

subsection \<open>Rendering\<close>

text \<open>
  Claim C6: the author display is \<^verbatim>\<open>" - "\<close> followed by the author when the quote has an
  author string, and \<^verbatim>\<open>" - Unknown"\<close> when it has no author property. This holds for
  every text \<open>t\<close>, since the author is assigned before the text's length is read.
\<close>

theorem setQuote_author_display:
  "author_textContent (snd (setQuote (Obj (Str a) t) st)) = '' - '' @ a \<and>
   author_textContent (snd (setQuote (Obj Undefined t) st)) = '' - Unknown''"
  by (simp add: setQuote_author del: setQuote.simps)

text \<open>
  Claim C7: after rendering a quote with the text \<open>s\<close>, the class \<^verbatim>\<open>long-quote\<close> is on the
  quote element if and only if \<open>s\<close> is longer than 120; it is there for a text of length
  150 and not there for one of length 50.
\<close>

theorem setQuote_long_quote_iff:
  "(''long-quote'' \<in> set (quote_classList (snd (setQuote (Obj a (Str s)) st)))) =
     (120 < length s) \<and>
   ''long-quote'' \<in> set (quote_classList (snd (setQuote (Obj a (Str (replicate 150 c))) st))) \<and>
   ''long-quote'' \<notin> set (quote_classList (snd (setQuote (Obj a (Str (replicate 50 c))) st)))"
  by (simp add: setQuote_Str classList_toggle_mem)

text \<open>
  Claim C8: the default \<^verbatim>\<open>"Unknown"\<close> replaces an author that is \<^verbatim>\<open>undefined\<close> and no
  other: an author \<^verbatim>\<open>null\<close> is displayed as \<^verbatim>\<open>" - null"\<close> and an empty author as
  \<^verbatim>\<open>" - "\<close>.
\<close>

theorem setQuote_default_only_undefined:
  "author_textContent (snd (setQuote (Obj Null t) st)) = '' - null'' \<and>
   author_textContent (snd (setQuote (Obj (Str []) t) st)) = '' - '' \<and>
   author_textContent (snd (setQuote (Obj a t) st)) =
     '' - '' @ (case a of Undefined \<Rightarrow> ''Unknown'' | Null \<Rightarrow> ''null'' | Str s \<Rightarrow> s)"
  by (cases a) (simp_all add: setQuote_author del: setQuote.simps)

text \<open>
  Claim C10: the class \<^verbatim>\<open>long-quote\<close> after a render depends on the rendered text alone,
  not on the page before nor on the author; so the class set by the render of a long
  quote is gone after the render of a quote of 120 characters or fewer that follows it.
\<close>

theorem setQuote_long_quote_cleared:
  "(''long-quote'' \<in> set (quote_classList (snd (setQuote (Obj a (Str s)) st)))) =
   (''long-quote'' \<in> set (quote_classList (snd (setQuote (Obj a' (Str s)) st')))) \<and>
   (120 < length s1 \<and> length s2 \<le> 120 \<longrightarrow>
      ''long-quote'' \<in> set (quote_classList (snd (setQuote (Obj a1 (Str s1)) st))) \<and>
      ''long-quote'' \<notin> set (quote_classList
         (snd (setQuote (Obj a2 (Str s2)) (snd (setQuote (Obj a1 (Str s1)) st))))))"
  by (simp add: setQuote_Str classList_toggle_mem del: setQuote.simps)

theorem setQuote_long_quote_cleared_witness:
  "120 < length (replicate 121 CHR ''a'') \<and> length ''short'' \<le> 120 \<and>
   quote_classList (snd (setQuote (Obj Undefined (Str (replicate 121 CHR ''a''))) blank_page)) =
     [''long-quote''] \<and>
   ''long-quote'' \<notin> set (quote_classList (snd (setQuote (Obj Undefined (Str ''short''))
       (snd (setQuote (Obj Undefined (Str (replicate 121 CHR ''a''))) blank_page)))))"
  using setQuote_long_quote_cleared [of Undefined "[]" blank_page Undefined blank_page
    "replicate 121 CHR ''a''" "''short''" Undefined Undefined]
  by (simp add: setQuote_Str classList_toggle_def blank_page_def del: setQuote.simps)

subsection \<open>Sharing\<close>

text \<open>
  Claim C9: \<^verbatim>\<open>shareQuote\<close> of \<^verbatim>\<open>src/script.js\<close> calls \<^verbatim>\<open>window.open\<close> with the share URL
  in every case; when the quote or the author display is empty it logs
  \<^verbatim>\<open>No quote or author to share\<close> and opens the URL all the same. On the same page
  \<^verbatim>\<open>shareQuote\<close> of \<^verbatim>\<open>src/unnamed/part_001\<close> logs and returns: it opens and shares nothing.
\<close>

theorem shareQuote_script_opens_unconditionally:
  "opened (shareQuote_script st) =
     opened st @ [(''https://twitter.com/intent/tweet?text='' @
       encodeURIComponent ([CHR 0x22] @ quote_textContent st @ [CHR 0x22] @ '' - '' @
                           author_textContent st), ''_blank'')] \<and>
   (quote_textContent st = [] \<or> author_textContent st = [] \<longrightarrow>
      console (shareQuote_script st) = console st @ [Msg ''No quote or author to share''] \<and>
      shareQuote_part001 nav href st = logError ''No quote or author to share'' st \<and>
      opened (shareQuote_part001 nav href st) = opened st \<and>
      shared (shareQuote_part001 nav href st) = shared st)"
  by (simp add: shareQuote_script_def shareQuote_part001_def logError_def Let_def)

theorem shareQuote_script_opens_unconditionally_witness:
  "(quote_textContent blank_page = [] \<or> author_textContent blank_page = []) \<and>
   opened (shareQuote_script blank_page) =
     [(''https://twitter.com/intent/tweet?text=%22%22%20-%20'', ''_blank'')] \<and>
   console (shareQuote_script blank_page) = [Msg ''No quote or author to share''] \<and>
   opened (shareQuote_part001 NoShare [] blank_page) = []"
  using shareQuote_script_opens_unconditionally [of blank_page NoShare "[]"]
  by (simp add: blank_page_def logError_def encodeURIComponent_def encode_unit_def
        uri_unreserved_def percent_byte_def hex_digit_def)

end
